theory Spec2Isabelle
  imports Main "HOL-Library.Word"
begin

section \<open>Enumerations of as-release.c\<close>

text \<open>
  Modelled from the spec: the enumerations are declared in headers outside
  \<^verbatim>\<open>as-release.c\<close>. The release kinds, urgencies and URL kinds are the
  enumerators that the codecs of the source name, which are those of the data model of
  the spec; the format styles are the two the spec names and the unknown style.
\<close>

datatype AsReleaseKind =
    AS_RELEASE_KIND_UNKNOWN
  | AS_RELEASE_KIND_STABLE
  | AS_RELEASE_KIND_DEVELOPMENT

datatype AsUrgencyKind =
    AS_URGENCY_KIND_UNKNOWN
  | AS_URGENCY_KIND_LOW
  | AS_URGENCY_KIND_MEDIUM
  | AS_URGENCY_KIND_HIGH
  | AS_URGENCY_KIND_CRITICAL

datatype AsReleaseUrlKind =
    AS_RELEASE_URL_KIND_UNKNOWN
  | AS_RELEASE_URL_KIND_DETAILS

datatype AsFormatStyle =
    AS_FORMAT_STYLE_UNKNOWN
  | AS_FORMAT_STYLE_METAINFO
  | AS_FORMAT_STYLE_CATALOG

text \<open>
  A \<^verbatim>\<open>const gchar *\<close> is a \<^typ>\<open>string option\<close>: \<^term>\<open>None\<close> is the NULL pointer.
  \<^verbatim>\<open>g_strcmp0 (a, b) == 0\<close> holds when both are NULL or both are equal strings.
\<close>

definition g_strcmp0_eq :: "string option \<Rightarrow> string option \<Rightarrow> bool" where
  "g_strcmp0_eq a b = (a = b)"

subsection \<open>Codecs\<close>

definition as_release_kind_to_string :: "AsReleaseKind \<Rightarrow> string" where
  "as_release_kind_to_string k =
     (if k = AS_RELEASE_KIND_STABLE then ''stable''
      else if k = AS_RELEASE_KIND_DEVELOPMENT then ''development''
      else ''unknown'')"

definition as_release_kind_from_string :: "string option \<Rightarrow> AsReleaseKind" where
  "as_release_kind_from_string kind_str =
     (if g_strcmp0_eq kind_str (Some ''stable'') then AS_RELEASE_KIND_STABLE
      else if g_strcmp0_eq kind_str (Some ''development'') then AS_RELEASE_KIND_DEVELOPMENT
      else AS_RELEASE_KIND_UNKNOWN)"

definition as_urgency_kind_to_string :: "AsUrgencyKind \<Rightarrow> string" where
  "as_urgency_kind_to_string urgency_kind =
     (if urgency_kind = AS_URGENCY_KIND_LOW then ''low''
      else if urgency_kind = AS_URGENCY_KIND_MEDIUM then ''medium''
      else if urgency_kind = AS_URGENCY_KIND_HIGH then ''high''
      else if urgency_kind = AS_URGENCY_KIND_CRITICAL then ''critical''
      else ''unknown'')"

definition as_urgency_kind_from_string :: "string option \<Rightarrow> AsUrgencyKind" where
  "as_urgency_kind_from_string urgency_kind =
     (if g_strcmp0_eq urgency_kind (Some ''low'') then AS_URGENCY_KIND_LOW
      else if g_strcmp0_eq urgency_kind (Some ''medium'') then AS_URGENCY_KIND_MEDIUM
      else if g_strcmp0_eq urgency_kind (Some ''high'') then AS_URGENCY_KIND_HIGH
      else if g_strcmp0_eq urgency_kind (Some ''critical'') then AS_URGENCY_KIND_CRITICAL
      else AS_URGENCY_KIND_UNKNOWN)"

definition as_release_url_kind_to_string :: "AsReleaseUrlKind \<Rightarrow> string" where
  "as_release_url_kind_to_string k =
     (if k = AS_RELEASE_URL_KIND_DETAILS then ''details'' else ''unknown'')"

definition as_release_url_kind_from_string :: "string option \<Rightarrow> AsReleaseUrlKind" where
  "as_release_url_kind_from_string kind_str =
     (if kind_str = None then AS_RELEASE_URL_KIND_DETAILS
      else if g_strcmp0_eq kind_str (Some ''details'') then AS_RELEASE_URL_KIND_DETAILS
      else AS_RELEASE_URL_KIND_UNKNOWN)"

section \<open>The release record and its collaborators\<close>

text \<open>
  Diagnostics. \<^verbatim>\<open>g_warning\<close>, \<^verbatim>\<open>g_debug\<close> and the critical message of a failed
  \<^verbatim>\<open>g_return_if_fail\<close> are collected in a log: the format string (for a failed
  precondition, the expression checked) and its arguments. None of them ends the call.
  \<^verbatim>\<open>as_yaml_print_unknown\<close> is recorded with its two arguments.
\<close>

datatype GLogLevel = G_LOG_LEVEL_CRITICAL | G_LOG_LEVEL_WARNING | G_LOG_LEVEL_DEBUG

datatype log_arg = ArgStr "string option" | ArgLong int

datatype diag =
    Log GLogLevel string "log_arg list"
  | YamlPrintUnknown string "string option"

text \<open>
  Modelled from the spec: the document context (\<^verbatim>\<open>AsContext\<close>, declared in
  \<^verbatim>\<open>as-context.h\<close>) carries the active format style, the base locale and the file
  name used in diagnostics.
\<close>

record AsContext =
  style :: AsFormatStyle
  base_locale :: "string option"
  filename :: "string option"

definition as_context_get_style :: "AsContext \<Rightarrow> AsFormatStyle" where
  "as_context_get_style c = style c"

definition as_context_get_filename :: "AsContext \<Rightarrow> string option" where
  "as_context_get_filename c = filename c"

text \<open>The description table: a \<^verbatim>\<open>GHashTable\<close> from locale to markup.\<close>

type_synonym desc_table = "string \<rightharpoonup> string"

text \<open>
  \<^verbatim>\<open>AsReleasePrivate\<close>. Issues and artifacts are objects of other files: their types
  are the parameters \<^typ>\<open>'i\<close> and \<^typ>\<open>'a\<close>.
\<close>

record ('i, 'a) AsRelease =
  kind :: AsReleaseKind
  version :: "string option"
  description :: desc_table
  timestamp :: "64 word"
  date :: "string option"
  date_eol :: "string option"
  context' :: "AsContext option"
  desc_translatable :: bool
  issues :: "'i list"
  artifacts :: "'a list"
  url_details :: "string option"
  urgency :: AsUrgencyKind

text \<open>An XML node of libxml2, as far as this file reads it.\<close>

datatype xmlElementType = XML_ELEMENT_NODE | XML_TEXT_NODE | XML_COMMENT_NODE

datatype xmlNode =
  XmlNode (xml_type: xmlElementType) (xml_name: "string option")
    (xml_properties: "(string \<times> string) list") (xml_children: "xmlNode list")
    (xml_line: int)

text \<open>A node of the parsed YAML tree (\<^verbatim>\<open>GNode\<close>): its data and its children.\<close>

datatype GNode = GNode (g_data: "string option") (g_children: "GNode list")

text \<open>
  The functions of GLib, libc and the other files of the library that
  \<^verbatim>\<open>as-release.c\<close> calls and whose code is elsewhere. Every operation below takes
  them as the parameter \<open>E\<close>.
  \<^item> \<open>iso8601_to_unix s\<close>: \<^verbatim>\<open>as_iso8601_to_datetime (s)\<close> followed by
    \<^verbatim>\<open>g_date_time_to_unix\<close>; \<^term>\<open>None\<close> when the former returns NULL. The
    value is a \<^verbatim>\<open>gint64\<close>.
  \<^item> \<open>unix_to_iso8601 t\<close>: \<^verbatim>\<open>g_date_time_new_from_unix_utc (t)\<close> followed by
    \<^verbatim>\<open>g_date_time_format_iso8601\<close>; the argument is a \<^verbatim>\<open>gint64\<close>.
  \<^item> \<open>atol s\<close>: the \<^verbatim>\<open>long\<close> that libc's \<^verbatim>\<open>atol\<close> returns.
  \<^item> the loaders of issues and artifacts return the loaded object, or \<^term>\<open>None\<close>
    where the C function returns FALSE.
\<close>

record ('i, 'a) extern =
  iso8601_to_unix :: "string option \<Rightarrow> int option"
  unix_to_iso8601 :: "int \<Rightarrow> string option"
  atol :: "string \<Rightarrow> int"
  as_context_localized_ht_set ::
    "AsContext option \<Rightarrow> desc_table \<Rightarrow> string \<Rightarrow> string option \<Rightarrow> desc_table"
  as_xml_dump_node_children :: "xmlNode \<Rightarrow> string option"
  as_xml_get_node_locale_match :: "AsContext \<Rightarrow> xmlNode \<Rightarrow> string option"
  as_xml_get_node_value :: "xmlNode \<Rightarrow> string option"
  as_xml_parse_metainfo_description_node ::
    "AsContext \<Rightarrow> xmlNode \<Rightarrow> desc_table \<Rightarrow> desc_table"
  as_artifact_load_from_xml :: "AsContext \<Rightarrow> xmlNode \<Rightarrow> 'a option"
  as_issue_load_from_xml :: "AsContext \<Rightarrow> xmlNode \<Rightarrow> 'i option"
  as_yaml_set_localized_table :: "AsContext \<Rightarrow> GNode \<Rightarrow> desc_table \<Rightarrow> desc_table"
  as_artifact_load_from_yaml :: "AsContext \<Rightarrow> GNode \<Rightarrow> 'a option"
  as_issue_load_from_yaml :: "AsContext \<Rightarrow> GNode \<Rightarrow> 'i option"

text \<open>
  Modelled from the spec: \<^verbatim>\<open>as_assign_string_safe (target, new_val)\<close>, a macro of
  \<^verbatim>\<open>as-utils-private.h\<close>, is the assignment behind the direct setters, which store
  the text they are given verbatim: it frees the target and stores a copy of the new
  value, which may be NULL. The result is the new content of the target.
\<close>

definition as_assign_string_safe :: "string option \<Rightarrow> string option \<Rightarrow> string option" where
  "as_assign_string_safe target new_val = new_val"

text \<open>The message of a failed \<^verbatim>\<open>g_return_if_fail (expr)\<close>.\<close>

definition return_if_fail_warning :: "string \<Rightarrow> diag" where
  "return_if_fail_warning expr = Log G_LOG_LEVEL_CRITICAL expr []"

subsection \<open>Construction and accessors\<close>

definition as_release_init :: "('i, 'a) AsRelease" where
  "as_release_init =
     \<lparr> kind = AS_RELEASE_KIND_STABLE, version = None, description = Map.empty,
       timestamp = 0, date = None, date_eol = None, context' = None,
       desc_translatable = True, issues = [], artifacts = [], url_details = None,
       urgency = AS_URGENCY_KIND_UNKNOWN \<rparr>"

definition as_release_new :: "('i, 'a) AsRelease" where
  "as_release_new = as_release_init"

definition as_release_set_kind :: "('i, 'a) AsRelease \<Rightarrow> AsReleaseKind \<Rightarrow> ('i, 'a) AsRelease" where
  "as_release_set_kind release k = release\<lparr>kind := k\<rparr>"

definition as_release_set_version ::
  "('i, 'a) AsRelease \<Rightarrow> string option \<Rightarrow> ('i, 'a) AsRelease" where
  "as_release_set_version release v =
     release\<lparr>version := as_assign_string_safe (version release) v\<rparr>"

definition as_release_get_timestamp :: "('i, 'a) AsRelease \<Rightarrow> 64 word" where
  "as_release_get_timestamp release = timestamp release"

text \<open>
  The \<^verbatim>\<open>guint64\<close> timestamp is passed to \<^verbatim>\<open>g_date_time_new_from_unix_utc\<close>,
  whose parameter is a \<^verbatim>\<open>gint64\<close>: \<^term>\<open>sint\<close> is that conversion.
\<close>

definition as_release_set_timestamp ::
  "('i, 'a) extern \<Rightarrow> ('i, 'a) AsRelease \<Rightarrow> 64 word \<Rightarrow> ('i, 'a) AsRelease" where
  "as_release_set_timestamp E release ts =
     (let time = unix_to_iso8601 E (sint ts)
      in release\<lparr>timestamp := ts, date := time\<rparr>)"

definition as_release_get_date :: "('i, 'a) AsRelease \<Rightarrow> string option" where
  "as_release_get_date release = date release"

text \<open>
  \<^verbatim>\<open>g_date_time_to_unix\<close> returns a \<^verbatim>\<open>gint64\<close>, stored in the \<^verbatim>\<open>guint64\<close>
  field: \<^term>\<open>word_of_int\<close> is that conversion.
\<close>

definition as_release_set_date ::
  "('i, 'a) extern \<Rightarrow> ('i, 'a) AsRelease \<Rightarrow> string option
     \<Rightarrow> ('i, 'a) AsRelease \<times> diag list" where
  "as_release_set_date E release d =
     (case d of
        None \<Rightarrow> (release, [return_if_fail_warning ''date != NULL''])
      | Some text \<Rightarrow>
          (case iso8601_to_unix E (Some text) of
             Some t \<Rightarrow>
               (release\<lparr>timestamp := word_of_int t,
                        date := as_assign_string_safe (date release) (Some text)\<rparr>, [])
           | None \<Rightarrow>
               (release,
                [Log G_LOG_LEVEL_WARNING ''Tried to set invalid release date: %s''
                   [ArgStr (Some text)]])))"

definition as_release_get_date_eol :: "('i, 'a) AsRelease \<Rightarrow> string option" where
  "as_release_get_date_eol release = date_eol release"

definition as_release_set_date_eol ::
  "('i, 'a) AsRelease \<Rightarrow> string option \<Rightarrow> ('i, 'a) AsRelease \<times> diag list" where
  "as_release_set_date_eol release d =
     (case d of
        None \<Rightarrow> (release, [return_if_fail_warning ''date != NULL''])
      | Some text \<Rightarrow>
          (release\<lparr>date_eol := as_assign_string_safe (date_eol release) (Some text)\<rparr>, []))"

text \<open>The getter reads the record and writes nothing to it: it returns a value and a log.\<close>

definition as_release_get_timestamp_eol ::
  "('i, 'a) extern \<Rightarrow> ('i, 'a) AsRelease \<Rightarrow> 64 word \<times> diag list" where
  "as_release_get_timestamp_eol E release =
     (case date_eol release of
        None \<Rightarrow> (0, [])
      | Some text \<Rightarrow>
          (case iso8601_to_unix E (Some text) of
             Some t \<Rightarrow> (word_of_int t, [])
           | None \<Rightarrow>
               (0,
                [Log G_LOG_LEVEL_WARNING
                   ''Unable to retrieve EOL timestamp from EOL date: %s''
                   [ArgStr (Some text)]])))"

definition as_release_set_timestamp_eol ::
  "('i, 'a) extern \<Rightarrow> ('i, 'a) AsRelease \<Rightarrow> 64 word \<Rightarrow> ('i, 'a) AsRelease" where
  "as_release_set_timestamp_eol E release ts =
     (if ts = 0 then release
      else release\<lparr>date_eol := unix_to_iso8601 E (sint ts)\<rparr>)"

definition as_release_set_urgency ::
  "('i, 'a) AsRelease \<Rightarrow> AsUrgencyKind \<Rightarrow> ('i, 'a) AsRelease" where
  "as_release_set_urgency release u = release\<lparr>urgency := u\<rparr>"

definition as_release_set_description ::
  "('i, 'a) extern \<Rightarrow> ('i, 'a) AsRelease \<Rightarrow> string option \<Rightarrow> string option
     \<Rightarrow> ('i, 'a) AsRelease \<times> diag list" where
  "as_release_set_description E release descr loc =
     (case descr of
        None \<Rightarrow> (release, [return_if_fail_warning ''description != NULL''])
      | Some text \<Rightarrow>
          (release\<lparr>description :=
              as_context_localized_ht_set E (context' release) (description release) text loc\<rparr>,
           []))"

definition as_release_add_artifact :: "('i, 'a) AsRelease \<Rightarrow> 'a \<Rightarrow> ('i, 'a) AsRelease" where
  "as_release_add_artifact release artifact =
     release\<lparr>artifacts := artifacts release @ [artifact]\<rparr>"

definition as_release_add_issue :: "('i, 'a) AsRelease \<Rightarrow> 'i \<Rightarrow> ('i, 'a) AsRelease" where
  "as_release_add_issue release issue = release\<lparr>issues := issues release @ [issue]\<rparr>"

definition as_release_get_url ::
  "('i, 'a) AsRelease \<Rightarrow> AsReleaseUrlKind \<Rightarrow> string option" where
  "as_release_get_url release url_kind =
     (if url_kind = AS_RELEASE_URL_KIND_DETAILS then url_details release else None)"

definition as_release_set_url ::
  "('i, 'a) AsRelease \<Rightarrow> AsReleaseUrlKind \<Rightarrow> string option \<Rightarrow> ('i, 'a) AsRelease" where
  "as_release_set_url release url_kind url =
     (if url_kind = AS_RELEASE_URL_KIND_DETAILS
      then release\<lparr>url_details := as_assign_string_safe (url_details release) url\<rparr>
      else release)"

definition as_release_set_context ::
  "('i, 'a) AsRelease \<Rightarrow> AsContext option \<Rightarrow> ('i, 'a) AsRelease" where
  "as_release_set_context release c = release\<lparr>context' := c\<rparr>"

definition as_release_set_description_translatable ::
  "('i, 'a) AsRelease \<Rightarrow> bool \<Rightarrow> ('i, 'a) AsRelease" where
  "as_release_set_description_translatable release translatable =
     release\<lparr>desc_translatable := translatable\<rparr>"

section \<open>The XML mapper\<close>

text \<open>
  Modelled from the spec: \<^verbatim>\<open>as_xml_get_prop_value\<close> (of \<^verbatim>\<open>as-xml.c\<close>) reads an
  optional attribute off the node: its value, or NULL when the node has none of that name.
\<close>

definition as_xml_get_prop_value :: "xmlNode \<Rightarrow> string \<Rightarrow> string option" where
  "as_xml_get_prop_value node prop_name = map_of (xml_properties node) prop_name"

fun load_xml_artifacts ::
  "('i, 'a) extern \<Rightarrow> AsContext \<Rightarrow> ('i, 'a) AsRelease \<Rightarrow> xmlNode list
     \<Rightarrow> ('i, 'a) AsRelease" where
  "load_xml_artifacts E c release [] = release"
| "load_xml_artifacts E c release (iter2 # rest) =
     (if xml_type iter2 \<noteq> XML_ELEMENT_NODE then load_xml_artifacts E c release rest
      else
        (case as_artifact_load_from_xml E c iter2 of
           Some artifact \<Rightarrow>
             load_xml_artifacts E c (as_release_add_artifact release artifact) rest
         | None \<Rightarrow> load_xml_artifacts E c release rest))"

fun load_xml_issues ::
  "('i, 'a) extern \<Rightarrow> AsContext \<Rightarrow> ('i, 'a) AsRelease \<Rightarrow> xmlNode list
     \<Rightarrow> ('i, 'a) AsRelease" where
  "load_xml_issues E c release [] = release"
| "load_xml_issues E c release (iter2 # rest) =
     (if xml_type iter2 \<noteq> XML_ELEMENT_NODE then load_xml_issues E c release rest
      else
        (case as_issue_load_from_xml E c iter2 of
           Some issue \<Rightarrow> load_xml_issues E c (as_release_add_issue release issue) rest
         | None \<Rightarrow> load_xml_issues E c release rest))"

text \<open>The body of the loop over the children of the release node.\<close>

definition load_xml_child ::
  "('i, 'a) extern \<Rightarrow> AsContext \<Rightarrow> ('i, 'a) AsRelease \<Rightarrow> xmlNode
     \<Rightarrow> ('i, 'a) AsRelease \<times> diag list" where
  "load_xml_child E c release iter =
     (if xml_type iter \<noteq> XML_ELEMENT_NODE then (release, [])
      else if g_strcmp0_eq (xml_name iter) (Some ''artifacts'') then
        (load_xml_artifacts E c release (xml_children iter), [])
      else if g_strcmp0_eq (xml_name iter) (Some ''description'') then
        (let r1 = release\<lparr>description := Map.empty\<rparr> in
         if as_context_get_style c = AS_FORMAT_STYLE_CATALOG then
           (let content = as_xml_dump_node_children E iter;
                lang = as_xml_get_node_locale_match E c iter
            in if lang \<noteq> None then as_release_set_description E r1 content lang
               else (r1, []))
         else
           (let r2 = r1\<lparr>description :=
                       as_xml_parse_metainfo_description_node E c iter (description r1)\<rparr>;
                r3 = r2\<lparr>desc_translatable := True\<rparr>
            in case as_xml_get_prop_value iter ''translatable'' of
                 None \<Rightarrow> (r3, [])
               | Some prop \<Rightarrow>
                   (r3\<lparr>desc_translatable := (\<not> g_strcmp0_eq (Some prop) (Some ''no''))\<rparr>,
                    [])))
      else if g_strcmp0_eq (xml_name iter) (Some ''url'') then
        (as_release_set_url release AS_RELEASE_URL_KIND_DETAILS (as_xml_get_node_value E iter),
         [])
      else if g_strcmp0_eq (xml_name iter) (Some ''issues'') then
        (load_xml_issues E c release (xml_children iter), [])
      else (release, []))"

fun load_xml_children ::
  "('i, 'a) extern \<Rightarrow> AsContext \<Rightarrow> ('i, 'a) AsRelease \<Rightarrow> xmlNode list
     \<Rightarrow> ('i, 'a) AsRelease \<times> diag list" where
  "load_xml_children E c release [] = (release, [])"
| "load_xml_children E c release (iter # rest) =
     (let (r1, l1) = load_xml_child E c release iter;
          (r2, l2) = load_xml_children E c r1 rest
      in (r2, l1 @ l2))"

text \<open>The attributes of the release node, in the order the source reads them.\<close>

definition load_xml_attributes ::
  "('i, 'a) extern \<Rightarrow> AsContext \<Rightarrow> ('i, 'a) AsRelease \<Rightarrow> xmlNode
     \<Rightarrow> ('i, 'a) AsRelease \<times> diag list" where
  "load_xml_attributes E c release node =
     (let r1 = (case as_xml_get_prop_value node ''type'' of
                  None \<Rightarrow> release
                | Some prop \<Rightarrow> release\<lparr>kind := as_release_kind_from_string (Some prop)\<rparr>);
          r2 = as_release_set_version r1 (as_xml_get_prop_value node ''version'');
          (r3, l3) =
            (case as_xml_get_prop_value node ''date'' of
               None \<Rightarrow> (r2, [])
             | Some prop \<Rightarrow>
                 (case iso8601_to_unix E (Some prop) of
                    Some t \<Rightarrow> (r2\<lparr>timestamp := word_of_int t, date := Some prop\<rparr>, [])
                  | None \<Rightarrow>
                      (r2,
                       [Log G_LOG_LEVEL_DEBUG
                          ''Invalid ISO-8601 date in releases at %s line %li''
                          [ArgStr (as_context_get_filename c), ArgLong (xml_line node)]])));
          r4 = (case as_xml_get_prop_value node ''date_eol'' of
                  None \<Rightarrow> r3
                | Some prop \<Rightarrow> r3\<lparr>date_eol := Some prop\<rparr>);
          r5 = (case as_xml_get_prop_value node ''timestamp'' of
                  None \<Rightarrow> r4
                | Some prop \<Rightarrow> r4\<lparr>timestamp := word_of_int (atol E prop)\<rparr>);
          r6 = (case as_xml_get_prop_value node ''urgency'' of
                  None \<Rightarrow> r5
                | Some prop \<Rightarrow> r5\<lparr>urgency := as_urgency_kind_from_string (Some prop)\<rparr>)
      in (r6, l3))"

definition as_release_load_from_xml ::
  "('i, 'a) extern \<Rightarrow> ('i, 'a) AsRelease \<Rightarrow> AsContext \<Rightarrow> xmlNode
     \<Rightarrow> bool \<times> ('i, 'a) AsRelease \<times> diag list" where
  "as_release_load_from_xml E release c node =
     (let r0 = as_release_set_context release (Some c);
          (r1, l1) = load_xml_attributes E c r0 node;
          (r2, l2) = load_xml_children E c r1 (xml_children node)
      in (True, r2, l1 @ l2))"

subsection \<open>Emission\<close>

text \<open>
  The tree writer is another file's. Emission is modelled by the calls it makes on it, in
  order: \<open>AddNode name calls\<close> is \<^verbatim>\<open>as_xml_add_node\<close> together with the calls made on
  the node it returns; the other constructors carry the arguments of the call of the same
  name (without the node written to).
\<close>

datatype ('i, 'a) xml_write =
    AddNode string "('i, 'a) xml_write list"
  | AddTextProp string "string option"
  | AddTextNode string "string option"
  | AddDescriptionNode AsContext desc_table bool
  | IssueToXmlNode 'i AsContext
  | ArtifactToXmlNode 'a AsContext

text \<open>\<^verbatim>\<open>g_strdup_printf\<close> with \<^verbatim>\<open>G_GUINT64_FORMAT\<close>: the decimal digits of the value.\<close>

fun decimal_digits :: "nat \<Rightarrow> string" where
  "decimal_digits n =
     (if n < 10 then [''0123456789'' ! n]
      else decimal_digits (n div 10) @ [''0123456789'' ! (n mod 10)])"

declare decimal_digits.simps [simp del]

definition guint64_to_string :: "64 word \<Rightarrow> string" where
  "guint64_to_string w = decimal_digits (unat w)"

definition as_release_to_xml_node ::
  "('i, 'a) extern \<Rightarrow> ('i, 'a) AsRelease \<Rightarrow> AsContext \<Rightarrow> ('i, 'a) xml_write" where
  "as_release_to_xml_node E release c =
     AddNode ''release''
       ([AddTextProp ''type'' (Some (as_release_kind_to_string (kind release))),
         AddTextProp ''version'' (version release)]
        @ (if timestamp release > 0 then
             (if as_context_get_style c = AS_FORMAT_STYLE_CATALOG
              then [AddTextProp ''timestamp'' (Some (guint64_to_string (timestamp release)))]
              else [AddTextProp ''date'' (unix_to_iso8601 E (sint (timestamp release)))])
           else [])
        @ (if date_eol release \<noteq> None then [AddTextProp ''date_eol'' (date_eol release)]
           else [])
        @ (if urgency release \<noteq> AS_URGENCY_KIND_UNKNOWN
           then [AddTextProp ''urgency'' (Some (as_urgency_kind_to_string (urgency release)))]
           else [])
        @ [AddDescriptionNode c (description release) (desc_translatable release)]
        @ (if url_details release \<noteq> None then [AddTextNode ''url'' (url_details release)]
           else [])
        @ (if length (issues release) > 0
           then [AddNode ''issues'' (map (\<lambda>issue. IssueToXmlNode issue c) (issues release))]
           else [])
        @ (if length (artifacts release) > 0
           then [AddNode ''artifacts''
                   (map (\<lambda>artifact. ArtifactToXmlNode artifact c) (artifacts release))]
           else []))"

section \<open>The YAML mapper\<close>

text \<open>
  Modelled from the spec: a mapping entry of the YAML tree is a node holding the key, whose
  first child holds the value (\<^verbatim>\<open>as_yaml_node_get_key\<close> and
  \<^verbatim>\<open>as_yaml_node_get_value\<close> of \<^verbatim>\<open>as-yaml.c\<close>); the value is NULL when there is
  no child.
\<close>

definition as_yaml_node_get_key :: "GNode \<Rightarrow> string option" where
  "as_yaml_node_get_key n = g_data n"

definition as_yaml_node_get_value :: "GNode \<Rightarrow> string option" where
  "as_yaml_node_get_value n = (case g_children n of [] \<Rightarrow> None | c # _ \<Rightarrow> g_data c)"

fun load_yaml_urls :: "('i, 'a) AsRelease \<Rightarrow> GNode list \<Rightarrow> ('i, 'a) AsRelease" where
  "load_yaml_urls release [] = release"
| "load_yaml_urls release (urls_n # rest) =
     (let c_key = as_yaml_node_get_key urls_n;
          c_value = as_yaml_node_get_value urls_n;
          url_kind = as_release_url_kind_from_string c_key
      in if url_kind \<noteq> AS_RELEASE_URL_KIND_UNKNOWN \<and> c_value \<noteq> None
         then load_yaml_urls (as_release_set_url release url_kind c_value) rest
         else load_yaml_urls release rest)"

fun load_yaml_issues ::
  "('i, 'a) extern \<Rightarrow> AsContext \<Rightarrow> ('i, 'a) AsRelease \<Rightarrow> GNode list
     \<Rightarrow> ('i, 'a) AsRelease" where
  "load_yaml_issues E c release [] = release"
| "load_yaml_issues E c release (sn # rest) =
     (case as_issue_load_from_yaml E c sn of
        Some issue \<Rightarrow> load_yaml_issues E c (as_release_add_issue release issue) rest
      | None \<Rightarrow> load_yaml_issues E c release rest)"

fun load_yaml_artifacts ::
  "('i, 'a) extern \<Rightarrow> AsContext \<Rightarrow> ('i, 'a) AsRelease \<Rightarrow> GNode list
     \<Rightarrow> ('i, 'a) AsRelease" where
  "load_yaml_artifacts E c release [] = release"
| "load_yaml_artifacts E c release (sn # rest) =
     (case as_artifact_load_from_yaml E c sn of
        Some artifact \<Rightarrow>
          load_yaml_artifacts E c (as_release_add_artifact release artifact) rest
      | None \<Rightarrow> load_yaml_artifacts E c release rest)"

text \<open>
  The body of the loop over the entries of the mapping. \<^verbatim>\<open>atol\<close> reads through its
  argument: on a \<^verbatim>\<open>unix-timestamp\<close> entry with no value it dereferences NULL, and the
  call has no result (\<^term>\<open>None\<close>).
\<close>

definition load_yaml_entry ::
  "('i, 'a) extern \<Rightarrow> AsContext \<Rightarrow> ('i, 'a) AsRelease \<Rightarrow> GNode
     \<Rightarrow> (('i, 'a) AsRelease \<times> diag list) option" where
  "load_yaml_entry E c release n =
     (let key = as_yaml_node_get_key n;
          v = as_yaml_node_get_value n
      in if g_strcmp0_eq key (Some ''unix-timestamp'') then
           (case v of
              None \<Rightarrow> None
            | Some text \<Rightarrow> Some (release\<lparr>timestamp := word_of_int (atol E text)\<rparr>, []))
         else if g_strcmp0_eq key (Some ''date'') then
           (case iso8601_to_unix E v of
              Some t \<Rightarrow> Some (release\<lparr>timestamp := word_of_int t\<rparr>, [])
            | None \<Rightarrow>
                Some (release,
                      [Log G_LOG_LEVEL_DEBUG ''Invalid ISO-8601 release date in %s''
                         [ArgStr (as_context_get_filename c)]]))
         else if g_strcmp0_eq key (Some ''date-eol'') then
           Some (as_release_set_date_eol release v)
         else if g_strcmp0_eq key (Some ''type'') then
           Some (release\<lparr>kind := as_release_kind_from_string v\<rparr>, [])
         else if g_strcmp0_eq key (Some ''version'') then
           Some (as_release_set_version release v, [])
         else if g_strcmp0_eq key (Some ''urgency'') then
           Some (release\<lparr>urgency := as_urgency_kind_from_string v\<rparr>, [])
         else if g_strcmp0_eq key (Some ''description'') then
           Some (release\<lparr>description :=
                    as_yaml_set_localized_table E c n (description release)\<rparr>, [])
         else if g_strcmp0_eq key (Some ''url'') then
           Some (load_yaml_urls release (g_children n), [])
         else if g_strcmp0_eq key (Some ''issues'') then
           Some (load_yaml_issues E c release (g_children n), [])
         else if g_strcmp0_eq key (Some ''artifacts'') then
           Some (load_yaml_artifacts E c release (g_children n), [])
         else Some (release, [YamlPrintUnknown ''release'' key]))"

fun load_yaml_entries ::
  "('i, 'a) extern \<Rightarrow> AsContext \<Rightarrow> ('i, 'a) AsRelease \<Rightarrow> GNode list
     \<Rightarrow> (('i, 'a) AsRelease \<times> diag list) option" where
  "load_yaml_entries E c release [] = Some (release, [])"
| "load_yaml_entries E c release (n # rest) =
     (case load_yaml_entry E c release n of
        None \<Rightarrow> None
      | Some (r1, l1) \<Rightarrow>
          (case load_yaml_entries E c r1 rest of
             None \<Rightarrow> None
           | Some (r2, l2) \<Rightarrow> Some (r2, l1 @ l2)))"

definition as_release_load_from_yaml ::
  "('i, 'a) extern \<Rightarrow> ('i, 'a) AsRelease \<Rightarrow> AsContext \<Rightarrow> GNode
     \<Rightarrow> (bool \<times> ('i, 'a) AsRelease \<times> diag list) option" where
  "as_release_load_from_yaml E release c node =
     (case load_yaml_entries E c (as_release_set_context release (Some c)) (g_children node) of
        None \<Rightarrow> None
      | Some (r, l) \<Rightarrow> Some (True, r, l))"

subsection \<open>Emission\<close>

text \<open>The calls made on the YAML emitter, in order.\<close>

datatype ('i, 'a) yaml_write =
    MappingStart
  | MappingEnd
  | SequenceStart
  | SequenceEnd
  | EmitScalar string
  | EmitEntry string "string option"
  | EmitEntryTimestamp string "64 word"
  | EmitLongLocalizedEntry string desc_table
  | IssueEmitYaml 'i AsContext
  | ArtifactEmitYaml 'a AsContext

definition as_release_emit_yaml ::
  "('i, 'a) extern \<Rightarrow> ('i, 'a) AsRelease \<Rightarrow> AsContext \<Rightarrow> ('i, 'a) yaml_write list" where
  "as_release_emit_yaml E release c =
     [MappingStart,
      EmitEntry ''version'' (version release),
      EmitEntry ''type'' (Some (as_release_kind_to_string (kind release)))]
     @ (if timestamp release > 0 then
          (if as_context_get_style c = AS_FORMAT_STYLE_CATALOG
           then [EmitEntryTimestamp ''unix-timestamp'' (timestamp release)]
           else [EmitEntry ''date'' (unix_to_iso8601 E (sint (timestamp release)))])
        else [])
     @ [EmitEntry ''date-eol'' (date_eol release)]
     @ (if urgency release \<noteq> AS_URGENCY_KIND_UNKNOWN
        then [EmitEntry ''urgency'' (Some (as_urgency_kind_to_string (urgency release)))]
        else [])
     @ [EmitLongLocalizedEntry ''description'' (description release)]
     @ (if url_details release \<noteq> None
        then [EmitScalar ''url'', MappingStart,
              EmitEntry (as_release_url_kind_to_string AS_RELEASE_URL_KIND_DETAILS)
                (url_details release),
              MappingEnd]
        else [])
     @ (if length (issues release) > 0
        then [EmitScalar ''issues'', SequenceStart]
             @ map (\<lambda>issue. IssueEmitYaml issue c) (issues release) @ [SequenceEnd]
        else [])
     @ (if length (artifacts release) > 0
        then [EmitScalar ''artifacts'', SequenceStart]
             @ map (\<lambda>artifact. ArtifactEmitYaml artifact c) (artifacts release)
             @ [SequenceEnd]
        else [])
     @ [MappingEnd]"

section \<open>Reading what was emitted\<close>

text \<open>
  The calls made on a node that \<^verbatim>\<open>as_xml_add_node\<close> created, the values written as
  the attribute of a given name among a list of calls, and the entries written under a given
  key among the calls on the YAML emitter.
\<close>

fun node_calls :: "('i, 'a) xml_write \<Rightarrow> ('i, 'a) xml_write list" where
  "node_calls (AddNode n calls) = calls"
| "node_calls w = []"

definition text_props :: "string \<Rightarrow> ('i, 'a) xml_write list \<Rightarrow> string option list" where
  "text_props name calls =
     concat (map (\<lambda>w. case w of AddTextProp n v \<Rightarrow> if n = name then [v] else [] | _ \<Rightarrow> [])
               calls)"

definition yaml_entries ::
  "string \<Rightarrow> ('i, 'a) yaml_write list \<Rightarrow> ('i, 'a) yaml_write list" where
  "yaml_entries key calls =
     filter (\<lambda>w. case w of EmitEntry k v \<Rightarrow> k = key
                        | EmitEntryTimestamp k t \<Rightarrow> k = key
                        | _ \<Rightarrow> False) calls"

text \<open>The issues that one child of the release node adds to the record.\<close>

definition issues_of_child :: "('i, 'a) extern \<Rightarrow> AsContext \<Rightarrow> xmlNode \<Rightarrow> 'i list" where
  "issues_of_child E c iter =
     (if xml_type iter = XML_ELEMENT_NODE \<and> xml_name iter = Some ''issues''
      then List.map_filter (as_issue_load_from_xml E c)
             (filter (\<lambda>n. xml_type n = XML_ELEMENT_NODE) (xml_children iter))
      else [])"

section \<open>A concrete environment and concrete documents\<close>

text \<open>
  The theorems below hold for every environment \<open>E\<close>. To run the model on documents, the
  environment is instantiated: three dates with their epoch values, the decimal reading of
  \<^verbatim>\<open>atol\<close>, and an issue loader that accepts an \<^verbatim>\<open>issue\<close> element with a
  \<^verbatim>\<open>url\<close> attribute. Issues and artifacts are strings here.
\<close>

definition sample_iso8601_to_unix :: "string option \<Rightarrow> int option" where
  "sample_iso8601_to_unix s =
     (if s = Some ''1970-01-01T00:00:00Z'' then Some 0
      else if s = Some ''2023-11-14T22:13:20Z'' then Some 1700000000
      else if s = Some ''2024-01-01'' then Some 1704067200
      else None)"

definition sample_unix_to_iso8601 :: "int \<Rightarrow> string option" where
  "sample_unix_to_iso8601 t =
     (if t = 0 then Some ''1970-01-01T00:00:00Z''
      else if t = 1700000000 then Some ''2023-11-14T22:13:20Z''
      else if t = 1704067200 then Some ''2024-01-01T00:00:00Z''
      else None)"

fun digits_value :: "int \<Rightarrow> string \<Rightarrow> int" where
  "digits_value acc [] = acc"
| "digits_value acc (ch # rest) =
     (if 48 \<le> (of_char ch :: nat) \<and> (of_char ch :: nat) \<le> 57
      then digits_value (10 * acc + int (of_char ch) - 48) rest
      else acc)"

definition sample_atol :: "string \<Rightarrow> int" where
  "sample_atol s =
     (case dropWhile (\<lambda>ch. ch = CHR '' '') s of
        [] \<Rightarrow> 0
      | ch # rest \<Rightarrow>
          (if ch = CHR ''-'' then - digits_value 0 rest
           else if ch = CHR ''+'' then digits_value 0 rest
           else digits_value 0 (ch # rest)))"

definition sample_issue_load_from_xml :: "AsContext \<Rightarrow> xmlNode \<Rightarrow> string option" where
  "sample_issue_load_from_xml c n =
     (if xml_name n = Some ''issue'' then as_xml_get_prop_value n ''url'' else None)"

definition sample_extern :: "(string, string) extern" where
  "sample_extern =
     \<lparr> iso8601_to_unix = sample_iso8601_to_unix,
       unix_to_iso8601 = sample_unix_to_iso8601,
       atol = sample_atol,
       as_context_localized_ht_set =
         (\<lambda>c tbl text loc. case loc of None \<Rightarrow> tbl | Some l \<Rightarrow> tbl(l \<mapsto> text)),
       as_xml_dump_node_children = (\<lambda>n. xml_name n),
       as_xml_get_node_locale_match = (\<lambda>c n. as_xml_get_prop_value n ''lang''),
       as_xml_get_node_value = (\<lambda>n. as_xml_get_prop_value n ''value''),
       as_xml_parse_metainfo_description_node = (\<lambda>c n tbl. tbl),
       as_artifact_load_from_xml = (\<lambda>c n. as_xml_get_prop_value n ''type''),
       as_issue_load_from_xml = sample_issue_load_from_xml,
       as_yaml_set_localized_table = (\<lambda>c n tbl. tbl),
       as_artifact_load_from_yaml = (\<lambda>c n. g_data n),
       as_issue_load_from_yaml = (\<lambda>c n. g_data n) \<rparr>"

text \<open>A release of 2024-01-01 with an end-of-life date, and the same release as of 1700000000.\<close>

definition sample_release :: "(string, string) AsRelease" where
  "sample_release =
     as_release_new\<lparr>version := Some ''1.0'', timestamp := 1704067200,
       date := Some ''2024-01-01'', date_eol := Some ''2023-11-14T22:13:20Z''\<rparr>"

definition stamped_release :: "(string, string) AsRelease" where
  "stamped_release = sample_release\<lparr>timestamp := 1700000000\<rparr>"

definition catalog_context :: AsContext where
  "catalog_context =
     \<lparr> style = AS_FORMAT_STYLE_CATALOG, base_locale = None, filename = Some ''demo.xml'' \<rparr>"

definition metainfo_context :: AsContext where
  "metainfo_context =
     \<lparr> style = AS_FORMAT_STYLE_METAINFO, base_locale = None, filename = Some ''demo.xml'' \<rparr>"

text \<open>
  A release element with a date, a timestamp and no version, whose \<^verbatim>\<open>issues\<close> block
  holds an issue without URL (its load fails), a text node and a well-formed issue.
\<close>

definition good_issue_node :: xmlNode where
  "good_issue_node =
     XmlNode XML_ELEMENT_NODE (Some ''issue'') [(''url'', ''https://example.org/1'')] [] 14"

definition bad_issue_node :: xmlNode where
  "bad_issue_node = XmlNode XML_ELEMENT_NODE (Some ''issue'') [] [] 15"

definition issues_node :: xmlNode where
  "issues_node =
     XmlNode XML_ELEMENT_NODE (Some ''issues'') []
       [bad_issue_node, XmlNode XML_TEXT_NODE None [] [] 15, good_issue_node] 13"

definition release_node :: xmlNode where
  "release_node =
     XmlNode XML_ELEMENT_NODE (Some ''release'')
       [(''date'', ''2024-01-01''), (''timestamp'', ''1700000000'')] [issues_node] 12"

definition bad_date_node :: xmlNode where
  "bad_date_node =
     XmlNode XML_ELEMENT_NODE (Some ''release'')
       [(''version'', ''2.0''), (''date'', ''not-a-date'')] [] 20"

definition yaml_node :: GNode where
  "yaml_node =
     GNode None
       [GNode (Some ''version'') [GNode (Some ''1.2'') []],
        GNode (Some ''date'') [GNode (Some ''2023-11-14T22:13:20Z'') []]]"


section \<open>Lemmas about the loaders and the emitters\<close>

subsection \<open>The XML loader\<close>

lemma load_xml_artifacts_eq:
  "load_xml_artifacts E c r ns =
     r\<lparr>artifacts := artifacts r
        @ List.map_filter (as_artifact_load_from_xml E c)
            (filter (\<lambda>n. xml_type n = XML_ELEMENT_NODE) ns)\<rparr>"
  by (induction ns arbitrary: r)
     (simp_all add: List.map_filter_simps as_release_add_artifact_def split: option.splits)

lemma load_xml_issues_eq:
  "load_xml_issues E c r ns =
     r\<lparr>issues := issues r
        @ List.map_filter (as_issue_load_from_xml E c)
            (filter (\<lambda>n. xml_type n = XML_ELEMENT_NODE) ns)\<rparr>"
  by (induction ns arbitrary: r)
     (simp_all add: List.map_filter_simps as_release_add_issue_def split: option.splits)

lemma load_xml_child_fields:
  "timestamp (fst (load_xml_child E c r n)) = timestamp r"
  "date (fst (load_xml_child E c r n)) = date r"
  "version (fst (load_xml_child E c r n)) = version r"
  "kind (fst (load_xml_child E c r n)) = kind r"
  "urgency (fst (load_xml_child E c r n)) = urgency r"
  "issues (fst (load_xml_child E c r n)) = issues r @ issues_of_child E c n"
  by (simp_all add: load_xml_child_def load_xml_artifacts_eq load_xml_issues_eq
        as_release_set_description_def as_release_set_url_def g_strcmp0_eq_def Let_def
        issues_of_child_def
      split: option.splits)

lemma load_xml_children_fields:
  "timestamp (fst (load_xml_children E c r ns)) = timestamp r"
  "date (fst (load_xml_children E c r ns)) = date r"
  "version (fst (load_xml_children E c r ns)) = version r"
  "kind (fst (load_xml_children E c r ns)) = kind r"
  "urgency (fst (load_xml_children E c r ns)) = urgency r"
  "issues (fst (load_xml_children E c r ns)) = issues r @ concat (map (issues_of_child E c) ns)"
  by (induction ns arbitrary: r)
     (simp_all add: load_xml_child_fields split_beta Let_def)

lemma concat_issues_of_child:
  "concat (map (issues_of_child E c) ns) =
     concat (map (\<lambda>iter. List.map_filter (as_issue_load_from_xml E c)
                           (filter (\<lambda>n. xml_type n = XML_ELEMENT_NODE) (xml_children iter)))
              (filter (\<lambda>iter. xml_type iter = XML_ELEMENT_NODE \<and> xml_name iter = Some ''issues'')
                 ns))"
  by (induction ns) (simp_all add: issues_of_child_def)

lemma load_xml_attributes_fields:
  "version (fst (load_xml_attributes E c r node)) = as_xml_get_prop_value node ''version''"
  "issues (fst (load_xml_attributes E c r node)) = issues r"
  "kind (fst (load_xml_attributes E c r node)) =
     (case as_xml_get_prop_value node ''type'' of
        None \<Rightarrow> kind r | Some p \<Rightarrow> as_release_kind_from_string (Some p))"
  "urgency (fst (load_xml_attributes E c r node)) =
     (case as_xml_get_prop_value node ''urgency'' of
        None \<Rightarrow> urgency r | Some p \<Rightarrow> as_urgency_kind_from_string (Some p))"
  by (simp_all add: load_xml_attributes_def as_release_set_version_def
        as_assign_string_safe_def Let_def split_beta split: option.splits)

lemma load_xml_attributes_timestamp:
  "timestamp (fst (load_xml_attributes E c r node)) =
     (case as_xml_get_prop_value node ''timestamp'' of
        Some ts \<Rightarrow> word_of_int (atol E ts)
      | None \<Rightarrow>
          (case as_xml_get_prop_value node ''date'' of
             None \<Rightarrow> timestamp r
           | Some d \<Rightarrow>
               (case iso8601_to_unix E (Some d) of
                  None \<Rightarrow> timestamp r | Some t \<Rightarrow> word_of_int t)))"
  by (simp add: load_xml_attributes_def as_release_set_version_def
        as_assign_string_safe_def Let_def split_beta split: option.splits)

lemma load_xml_attributes_date:
  "date (fst (load_xml_attributes E c r node)) =
     (case as_xml_get_prop_value node ''date'' of
        None \<Rightarrow> date r
      | Some d \<Rightarrow>
          (case iso8601_to_unix E (Some d) of None \<Rightarrow> date r | Some t \<Rightarrow> Some d))"
  by (simp add: load_xml_attributes_def as_release_set_version_def
        as_assign_string_safe_def Let_def split_beta split: option.splits)

lemma load_xml_attributes_log:
  "snd (load_xml_attributes E c r node) =
     (case as_xml_get_prop_value node ''date'' of
        None \<Rightarrow> []
      | Some d \<Rightarrow>
          (case iso8601_to_unix E (Some d) of
             Some t \<Rightarrow> []
           | None \<Rightarrow>
               [Log G_LOG_LEVEL_DEBUG ''Invalid ISO-8601 date in releases at %s line %li''
                  [ArgStr (as_context_get_filename c), ArgLong (xml_line node)]]))"
  by (simp add: load_xml_attributes_def Let_def split_beta split: option.splits)

lemma load_from_xml_unfold:
  "as_release_load_from_xml E r c node =
     (True,
      fst (load_xml_children E c
             (fst (load_xml_attributes E c (as_release_set_context r (Some c)) node))
             (xml_children node)),
      snd (load_xml_attributes E c (as_release_set_context r (Some c)) node)
      @ snd (load_xml_children E c
               (fst (load_xml_attributes E c (as_release_set_context r (Some c)) node))
               (xml_children node)))"
  by (simp add: as_release_load_from_xml_def Let_def split_beta)

lemma set_context_fields:
  "timestamp (as_release_set_context r x) = timestamp r"
  "date (as_release_set_context r x) = date r"
  "version (as_release_set_context r x) = version r"
  "kind (as_release_set_context r x) = kind r"
  "urgency (as_release_set_context r x) = urgency r"
  "issues (as_release_set_context r x) = issues r"
  by (simp_all add: as_release_set_context_def)

subsection \<open>The emitters\<close>

lemma text_props_append [simp]:
  "text_props name (xs @ ys) = text_props name xs @ text_props name ys"
  by (simp add: text_props_def)

lemma text_props_simps [simp]:
  "text_props name [] = []"
  "text_props name (AddTextProp n v # ws) = (if n = name then [v] else []) @ text_props name ws"
  "text_props name (AddNode n cs # ws) = text_props name ws"
  "text_props name (AddTextNode n v # ws) = text_props name ws"
  "text_props name (AddDescriptionNode c d b # ws) = text_props name ws"
  by (simp_all add: text_props_def)

lemma yaml_entries_append [simp]:
  "yaml_entries key (xs @ ys) = yaml_entries key xs @ yaml_entries key ys"
  by (simp add: yaml_entries_def)

lemma yaml_entries_simps [simp]:
  "yaml_entries key [] = []"
  "yaml_entries key (EmitEntry k v # ws) =
     (if k = key then [EmitEntry k v] else []) @ yaml_entries key ws"
  "yaml_entries key (EmitEntryTimestamp k t # ws) =
     (if k = key then [EmitEntryTimestamp k t] else []) @ yaml_entries key ws"
  "yaml_entries key (MappingStart # ws) = yaml_entries key ws"
  "yaml_entries key (MappingEnd # ws) = yaml_entries key ws"
  "yaml_entries key (SequenceStart # ws) = yaml_entries key ws"
  "yaml_entries key (SequenceEnd # ws) = yaml_entries key ws"
  "yaml_entries key (EmitScalar k # ws) = yaml_entries key ws"
  "yaml_entries key (EmitLongLocalizedEntry k d # ws) = yaml_entries key ws"
  by (simp_all add: yaml_entries_def)

lemma yaml_entries_map_issue [simp]:
  "yaml_entries key (map (\<lambda>x. IssueEmitYaml x c) xs) = []"
  by (induction xs) (simp_all add: yaml_entries_def)

lemma yaml_entries_map_artifact [simp]:
  "yaml_entries key (map (\<lambda>x. ArtifactEmitYaml x c) xs) = []"
  by (induction xs) (simp_all add: yaml_entries_def)

lemma xml_time_props:
  "text_props ''timestamp'' (node_calls (as_release_to_xml_node E r c)) =
     (if timestamp r > 0 \<and> as_context_get_style c = AS_FORMAT_STYLE_CATALOG
      then [Some (guint64_to_string (timestamp r))] else [])"
  "text_props ''date'' (node_calls (as_release_to_xml_node E r c)) =
     (if timestamp r > 0 \<and> as_context_get_style c \<noteq> AS_FORMAT_STYLE_CATALOG
      then [unix_to_iso8601 E (sint (timestamp r))] else [])"
  by (simp_all add: as_release_to_xml_node_def)

lemma yaml_time_entries:
  "yaml_entries ''unix-timestamp'' (as_release_emit_yaml E r c) =
     (if timestamp r > 0 \<and> as_context_get_style c = AS_FORMAT_STYLE_CATALOG
      then [EmitEntryTimestamp ''unix-timestamp'' (timestamp r)] else [])"
  "yaml_entries ''date'' (as_release_emit_yaml E r c) =
     (if timestamp r > 0 \<and> as_context_get_style c \<noteq> AS_FORMAT_STYLE_CATALOG
      then [EmitEntry ''date'' (unix_to_iso8601 E (sint (timestamp r)))] else [])"
  by (simp_all add: as_release_emit_yaml_def as_release_url_kind_to_string_def)

subsection \<open>The YAML loader\<close>

lemma load_yaml_urls_fields:
  "timestamp (load_yaml_urls r ns) = timestamp r"
  "date (load_yaml_urls r ns) = date r"
  by (induction ns arbitrary: r) (simp_all add: as_release_set_url_def Let_def)

lemma load_yaml_issues_fields:
  "timestamp (load_yaml_issues E c r ns) = timestamp r"
  "date (load_yaml_issues E c r ns) = date r"
  by (induction ns arbitrary: r)
     (simp_all add: as_release_add_issue_def split: option.splits)

lemma load_yaml_artifacts_fields:
  "timestamp (load_yaml_artifacts E c r ns) = timestamp r"
  "date (load_yaml_artifacts E c r ns) = date r"
  by (induction ns arbitrary: r)
     (simp_all add: as_release_add_artifact_def split: option.splits)

lemma load_yaml_entry_date:
  "load_yaml_entry E c r n = Some (r', l) \<Longrightarrow> date r' = date r"
  by (auto simp: load_yaml_entry_def Let_def as_release_set_date_eol_def
        as_release_set_version_def load_yaml_urls_fields load_yaml_issues_fields
        load_yaml_artifacts_fields
      split: if_splits option.splits)

lemma load_yaml_entry_timestamp:
  "as_yaml_node_get_key n \<noteq> Some ''unix-timestamp'' \<Longrightarrow>
   \<exists>r' l. load_yaml_entry E c r n = Some (r', l)
     \<and> timestamp r' =
         (if as_yaml_node_get_key n = Some ''date''
          then (case iso8601_to_unix E (as_yaml_node_get_value n) of
                  None \<Rightarrow> timestamp r | Some t \<Rightarrow> word_of_int t)
          else timestamp r)"
  by (auto simp: load_yaml_entry_def Let_def as_release_set_date_eol_def g_strcmp0_eq_def
        as_release_set_version_def load_yaml_urls_fields load_yaml_issues_fields
        load_yaml_artifacts_fields
      split: option.splits)

lemma load_yaml_entries_date:
  "load_yaml_entries E c r ns = Some (r', l) \<Longrightarrow> date r' = date r"
proof (induction ns arbitrary: r r' l)
  case Nil
  then show ?case by simp
next
  case (Cons n ns)
  from Cons.prems obtain r1 l1 r2 l2 where
    e: "load_yaml_entry E c r n = Some (r1, l1)" and
    rest: "load_yaml_entries E c r1 ns = Some (r2, l2)" and r': "r' = r2"
    by (auto split: option.splits)
  from Cons.IH [OF rest] load_yaml_entry_date [OF e] r' show ?case by simp
qed

lemma load_yaml_entries_no_date:
  "\<forall>n \<in> set ns. as_yaml_node_get_key n \<noteq> Some ''unix-timestamp'' \<Longrightarrow>
   filter (\<lambda>n. as_yaml_node_get_key n = Some ''date'') ns = [] \<Longrightarrow>
   \<exists>r' l. load_yaml_entries E c r ns = Some (r', l) \<and> timestamp r' = timestamp r"
proof (induction ns arbitrary: r)
  case Nil
  then show ?case by simp
next
  case (Cons n ns)
  have k: "as_yaml_node_get_key n \<noteq> Some ''unix-timestamp''" using Cons.prems(1) by simp
  have nd: "as_yaml_node_get_key n \<noteq> Some ''date''"
    using Cons.prems(2) by (simp split: if_splits)
  from load_yaml_entry_timestamp [OF k, of E c r] nd obtain r1 l1 where
    e: "load_yaml_entry E c r n = Some (r1, l1)" and t1: "timestamp r1 = timestamp r"
    by auto
  have "\<exists>r' l. load_yaml_entries E c r1 ns = Some (r', l) \<and> timestamp r' = timestamp r1"
    using Cons.prems nd by (intro Cons.IH) (simp_all split: if_splits)
  then show ?case using e t1 by auto
qed

lemma load_yaml_entries_one_date:
  "\<forall>n \<in> set ns. as_yaml_node_get_key n \<noteq> Some ''unix-timestamp'' \<Longrightarrow>
   filter (\<lambda>n. as_yaml_node_get_key n = Some ''date'') ns = [dn] \<Longrightarrow>
   iso8601_to_unix E (as_yaml_node_get_value dn) = Some t \<Longrightarrow>
   \<exists>r' l. load_yaml_entries E c r ns = Some (r', l) \<and> timestamp r' = word_of_int t"
proof (induction ns arbitrary: r)
  case Nil
  then show ?case by simp
next
  case (Cons n ns)
  have k: "as_yaml_node_get_key n \<noteq> Some ''unix-timestamp''" using Cons.prems(1) by simp
  have rest_k: "\<forall>n \<in> set ns. as_yaml_node_get_key n \<noteq> Some ''unix-timestamp''"
    using Cons.prems(1) by simp
  show ?case
  proof (cases "as_yaml_node_get_key n = Some ''date''")
    case True
    with Cons.prems(2) have n: "n = dn"
      and none: "filter (\<lambda>n. as_yaml_node_get_key n = Some ''date'') ns = []"
      by simp_all
    from load_yaml_entry_timestamp [OF k, of E c r] True n Cons.prems(3) obtain r1 l1 where
      e: "load_yaml_entry E c r n = Some (r1, l1)" and t1: "timestamp r1 = word_of_int t"
      by auto
    from load_yaml_entries_no_date [OF rest_k none, of E c r1] obtain r2 l2 where
      "load_yaml_entries E c r1 ns = Some (r2, l2)" "timestamp r2 = timestamp r1"
      by auto
    then show ?thesis using e t1 by auto
  next
    case False
    with Cons.prems(2) have one: "filter (\<lambda>n. as_yaml_node_get_key n = Some ''date'') ns = [dn]"
      by simp
    from load_yaml_entry_timestamp [OF k, of E c r] False obtain r1 l1 where
      e: "load_yaml_entry E c r n = Some (r1, l1)"
      by auto
    from Cons.IH [OF rest_k one Cons.prems(3), of r1] obtain r2 l2 where
      "load_yaml_entries E c r1 ns = Some (r2, l2)" "timestamp r2 = word_of_int t"
      by auto
    then show ?thesis using e by auto
  qed
qed

section \<open>The date reconciler\<close>

text \<open>
  C1 (as stated): setting the timestamp 0 would leave the date field as it was. The setter
  has no case for 0: on a release dated 2024-01-01 it stores the formatting of epoch 0.
\<close>

theorem set_timestamp_zero_counterexample:
  "date (as_release_set_timestamp sample_extern sample_release 0) \<noteq> date sample_release"
  by (simp add: as_release_set_timestamp_def sample_extern_def sample_unix_to_iso8601_def
        sample_release_def)

text \<open>
  C1 (amended). For every release record and every prior value of the date field,
  \<^verbatim>\<open>as_release_set_timestamp\<close> stores the given timestamp and replaces the date field
  by the ISO-8601 formatting of that timestamp, for every timestamp, 0 included: after
  setting the timestamp 0 the date field holds the formatting of epoch 0.
\<close>

theorem set_timestamp_recomputes_date:
  "timestamp (as_release_set_timestamp E r t) = t
   \<and> date (as_release_set_timestamp E r t) = unix_to_iso8601 E (sint t)
   \<and> date (as_release_set_timestamp E r 0) = unix_to_iso8601 E 0"
  by (simp add: as_release_set_timestamp_def)

text \<open>
  C4. \<^verbatim>\<open>as_release_set_date\<close> with a string that does not parse as ISO-8601 returns
  the record as it was (date and timestamp among its fields) and logs one warning, which
  ends nothing; with a string that parses, the timestamp field is the epoch value derived
  from it, the date field is the string itself, and nothing is logged.
\<close>

theorem set_date_parse_failure_keeps_fields:
  "(iso8601_to_unix E (Some s) = None \<longrightarrow>
      as_release_set_date E r (Some s) =
        (r, [Log G_LOG_LEVEL_WARNING ''Tried to set invalid release date: %s''
               [ArgStr (Some s)]]))
   \<and> (\<forall>t. iso8601_to_unix E (Some s) = Some t \<longrightarrow>
        timestamp (fst (as_release_set_date E r (Some s))) = word_of_int t
        \<and> date (fst (as_release_set_date E r (Some s))) = Some s
        \<and> snd (as_release_set_date E r (Some s)) = [])"
  by (simp add: as_release_set_date_def as_assign_string_safe_def)

theorem set_date_parse_failure_keeps_fields_witness:
  "as_release_set_date sample_extern sample_release (Some ''not-a-date'') =
     (sample_release,
      [Log G_LOG_LEVEL_WARNING ''Tried to set invalid release date: %s''
         [ArgStr (Some ''not-a-date'')]])
   \<and> timestamp (fst (as_release_set_date sample_extern sample_release
                        (Some ''2023-11-14T22:13:20Z''))) = 1700000000
   \<and> date (fst (as_release_set_date sample_extern sample_release
                   (Some ''2023-11-14T22:13:20Z''))) = Some ''2023-11-14T22:13:20Z''
   \<and> snd (as_release_set_date sample_extern sample_release
             (Some ''2023-11-14T22:13:20Z'')) = []"
  using set_date_parse_failure_keeps_fields
          [where E = sample_extern and r = sample_release and s = "''not-a-date''"]
        set_date_parse_failure_keeps_fields
          [where E = sample_extern and r = sample_release and s = "''2023-11-14T22:13:20Z''"]
  by (simp add: sample_extern_def sample_iso8601_to_unix_def)

text \<open>
  C7. \<^verbatim>\<open>as_release_get_timestamp_eol\<close> returns 0 and logs nothing when the end-of-life
  date is unset; returns 0 and logs a warning when it is set and does not parse; and
  returns the epoch value derived from it otherwise. Nothing is cached: the getter does not
  write to the record, and right after the end-of-life date is set to a new string it
  answers from the parse of that string.
\<close>

theorem get_timestamp_eol_cases:
  "(date_eol r = None \<longrightarrow> as_release_get_timestamp_eol E r = (0, []))
   \<and> (\<forall>d. date_eol r = Some d \<and> iso8601_to_unix E (Some d) = None \<longrightarrow>
        as_release_get_timestamp_eol E r =
          (0, [Log G_LOG_LEVEL_WARNING ''Unable to retrieve EOL timestamp from EOL date: %s''
                 [ArgStr (Some d)]]))
   \<and> (\<forall>d t. date_eol r = Some d \<and> iso8601_to_unix E (Some d) = Some t \<longrightarrow>
        as_release_get_timestamp_eol E r = (word_of_int t, []))
   \<and> (\<forall>d. fst (as_release_get_timestamp_eol E (fst (as_release_set_date_eol r (Some d)))) =
          (case iso8601_to_unix E (Some d) of None \<Rightarrow> 0 | Some t \<Rightarrow> word_of_int t))"
  by (auto simp: as_release_get_timestamp_eol_def as_release_set_date_eol_def
        as_assign_string_safe_def split: option.splits)

theorem get_timestamp_eol_cases_witness:
  "as_release_get_timestamp_eol sample_extern (as_release_new :: (string, string) AsRelease)
     = (0, [])
   \<and> as_release_get_timestamp_eol sample_extern (sample_release\<lparr>date_eol := Some ''soon''\<rparr>)
     = (0, [Log G_LOG_LEVEL_WARNING ''Unable to retrieve EOL timestamp from EOL date: %s''
              [ArgStr (Some ''soon'')]])
   \<and> as_release_get_timestamp_eol sample_extern sample_release = (1700000000, [])
   \<and> fst (as_release_get_timestamp_eol sample_extern
             (fst (as_release_set_date_eol sample_release (Some ''2024-01-01''))))
     = 1704067200"
  using get_timestamp_eol_cases
          [where E = sample_extern and r = "as_release_new :: (string, string) AsRelease"]
        get_timestamp_eol_cases
          [where E = sample_extern and r = "sample_release\<lparr>date_eol := Some ''soon''\<rparr>"]
        get_timestamp_eol_cases [where E = sample_extern and r = sample_release]
  by (simp add: sample_extern_def sample_iso8601_to_unix_def sample_release_def
        as_release_new_def as_release_init_def)

section \<open>Properties of the XML mapper\<close>

text \<open>
  C3. When the node loaded by \<^verbatim>\<open>as_release_load_from_xml\<close> has a \<^verbatim>\<open>timestamp\<close>
  attribute, the timestamp field ends as the integer that attribute parses to (converted to
  the unsigned field; the same number when it is not negative), whatever a \<^verbatim>\<open>date\<close>
  attribute gave before it, and a well-formed \<^verbatim>\<open>date\<close> attribute is kept as the date
  field. A \<^verbatim>\<open>date\<close> attribute that does not parse is logged at debug level and
  dropped: the load still returns TRUE, the date field is as before, and the timestamp
  field is as before unless the \<^verbatim>\<open>timestamp\<close> attribute sets it.
\<close>

theorem load_from_xml_timestamp_after_date:
  "(\<forall>ts. as_xml_get_prop_value node ''timestamp'' = Some ts \<longrightarrow>
      timestamp (fst (snd (as_release_load_from_xml E r c node))) = word_of_int (atol E ts)
      \<and> (0 \<le> atol E ts \<and> atol E ts < 2 ^ 64 \<longrightarrow>
           uint (timestamp (fst (snd (as_release_load_from_xml E r c node)))) = atol E ts))
   \<and> (\<forall>d t. as_xml_get_prop_value node ''date'' = Some d \<and> iso8601_to_unix E (Some d) = Some t \<longrightarrow>
        date (fst (snd (as_release_load_from_xml E r c node))) = Some d)
   \<and> (\<forall>d. as_xml_get_prop_value node ''date'' = Some d \<and> iso8601_to_unix E (Some d) = None \<longrightarrow>
        fst (as_release_load_from_xml E r c node) = True
        \<and> date (fst (snd (as_release_load_from_xml E r c node))) = date r
        \<and> timestamp (fst (snd (as_release_load_from_xml E r c node))) =
            (case as_xml_get_prop_value node ''timestamp'' of
               None \<Rightarrow> timestamp r
             | Some ts \<Rightarrow> word_of_int (atol E ts))
        \<and> Log G_LOG_LEVEL_DEBUG ''Invalid ISO-8601 date in releases at %s line %li''
             [ArgStr (as_context_get_filename c), ArgLong (xml_line node)]
           \<in> set (snd (snd (as_release_load_from_xml E r c node))))"
  by (auto simp: load_from_xml_unfold load_xml_children_fields load_xml_attributes_timestamp
        load_xml_attributes_date load_xml_attributes_log set_context_fields
        uint_word_of_int_eq take_bit_int_eq_self split: option.splits)

theorem load_from_xml_timestamp_after_date_witness:
  "timestamp (fst (snd (as_release_load_from_xml sample_extern sample_release
                          metainfo_context release_node))) = 1700000000
   \<and> uint (timestamp (fst (snd (as_release_load_from_xml sample_extern sample_release
                                  metainfo_context release_node)))) = 1700000000
   \<and> date (fst (snd (as_release_load_from_xml sample_extern sample_release
                       metainfo_context release_node))) = Some ''2024-01-01''
   \<and> fst (as_release_load_from_xml sample_extern sample_release
             metainfo_context bad_date_node) = True
   \<and> date (fst (snd (as_release_load_from_xml sample_extern sample_release
                       metainfo_context bad_date_node))) = Some ''2024-01-01''
   \<and> timestamp (fst (snd (as_release_load_from_xml sample_extern sample_release
                            metainfo_context bad_date_node))) = 1704067200
   \<and> Log G_LOG_LEVEL_DEBUG ''Invalid ISO-8601 date in releases at %s line %li''
        [ArgStr (Some ''demo.xml''), ArgLong 20]
      \<in> set (snd (snd (as_release_load_from_xml sample_extern sample_release
                          metainfo_context bad_date_node)))"
  using load_from_xml_timestamp_after_date
          [where E = sample_extern and r = sample_release and c = metainfo_context
             and node = release_node]
        load_from_xml_timestamp_after_date
          [where E = sample_extern and r = sample_release and c = metainfo_context
             and node = bad_date_node]
  by (simp add: as_xml_get_prop_value_def release_node_def bad_date_node_def
        sample_extern_def sample_iso8601_to_unix_def sample_atol_def sample_release_def
        metainfo_context_def as_context_get_filename_def)

text \<open>
  C6. \<^verbatim>\<open>as_release_load_from_xml\<close> returns TRUE for every node, and the issues of the
  record afterwards are those it had, followed, for each \<^verbatim>\<open>issues\<close> element among the
  children in document order, by the element children of that block whose own load
  succeeds, in document order: a child whose load fails is left out and its siblings stay.
\<close>

theorem load_from_xml_always_succeeds:
  "fst (as_release_load_from_xml E r c node) = True
   \<and> issues (fst (snd (as_release_load_from_xml E r c node))) =
       issues r
       @ concat
           (map (\<lambda>iter. List.map_filter (as_issue_load_from_xml E c)
                          (filter (\<lambda>n. xml_type n = XML_ELEMENT_NODE) (xml_children iter)))
              (filter (\<lambda>iter. xml_type iter = XML_ELEMENT_NODE \<and> xml_name iter = Some ''issues'')
                 (xml_children node)))"
  by (simp add: load_from_xml_unfold load_xml_children_fields load_xml_attributes_fields
        set_context_fields concat_issues_of_child)

theorem load_from_xml_always_succeeds_witness:
  "fst (as_release_load_from_xml sample_extern sample_release catalog_context release_node)
     = True
   \<and> issues (fst (snd (as_release_load_from_xml sample_extern sample_release catalog_context
                         release_node))) = [''https://example.org/1'']"
  using load_from_xml_always_succeeds
          [where E = sample_extern and r = sample_release and c = catalog_context
             and node = release_node]
  by (simp add: release_node_def issues_node_def good_issue_node_def bad_issue_node_def
        sample_extern_def sample_issue_load_from_xml_def as_xml_get_prop_value_def
        sample_release_def as_release_new_def as_release_init_def List.map_filter_simps)

text \<open>
  C9. After \<^verbatim>\<open>as_release_load_from_xml\<close> the version field is the value of the
  \<^verbatim>\<open>version\<close> attribute of the node: on a node without that attribute it is NULL,
  whatever version the record had. The kind and the urgency are kept when the node has no
  \<^verbatim>\<open>type\<close> or \<^verbatim>\<open>urgency\<close> attribute.
\<close>

theorem load_from_xml_resets_version:
  "version (fst (snd (as_release_load_from_xml E r c node))) =
     as_xml_get_prop_value node ''version''
   \<and> (as_xml_get_prop_value node ''version'' = None \<longrightarrow>
        version (fst (snd (as_release_load_from_xml E r c node))) = None)
   \<and> (as_xml_get_prop_value node ''type'' = None \<longrightarrow>
        kind (fst (snd (as_release_load_from_xml E r c node))) = kind r)
   \<and> (as_xml_get_prop_value node ''urgency'' = None \<longrightarrow>
        urgency (fst (snd (as_release_load_from_xml E r c node))) = urgency r)"
  by (simp add: load_from_xml_unfold load_xml_children_fields load_xml_attributes_fields
        set_context_fields)

theorem load_from_xml_resets_version_witness:
  "version sample_release = Some ''1.0''
   \<and> version (fst (snd (as_release_load_from_xml sample_extern sample_release
                          catalog_context release_node))) = None
   \<and> kind (fst (snd (as_release_load_from_xml sample_extern sample_release
                       catalog_context release_node))) = AS_RELEASE_KIND_STABLE
   \<and> urgency (fst (snd (as_release_load_from_xml sample_extern sample_release
                          catalog_context release_node))) = AS_URGENCY_KIND_UNKNOWN"
  using load_from_xml_resets_version
          [where E = sample_extern and r = sample_release and c = catalog_context
             and node = release_node]
  by (simp add: release_node_def as_xml_get_prop_value_def sample_release_def
        as_release_new_def as_release_init_def)

section \<open>Properties of emission\<close>

text \<open>
  C5. For a release with timestamp > 0, emission in catalog style writes the numeric
  timestamp (the XML attribute \<^verbatim>\<open>timestamp\<close>, the YAML entry \<^verbatim>\<open>unix-timestamp\<close>)
  once and no \<^verbatim>\<open>date\<close>; emission in any other style writes \<^verbatim>\<open>date\<close> once, with
  the ISO-8601 formatting of the timestamp, and no numeric timestamp; with timestamp 0
  neither is written. This is about the attributes of the release element and the entries
  of the release mapping.
\<close>

theorem emit_timestamp_or_date:
  "(timestamp r > 0 \<and> as_context_get_style c = AS_FORMAT_STYLE_CATALOG \<longrightarrow>
      text_props ''timestamp'' (node_calls (as_release_to_xml_node E r c))
        = [Some (guint64_to_string (timestamp r))]
      \<and> text_props ''date'' (node_calls (as_release_to_xml_node E r c)) = []
      \<and> yaml_entries ''unix-timestamp'' (as_release_emit_yaml E r c)
        = [EmitEntryTimestamp ''unix-timestamp'' (timestamp r)]
      \<and> yaml_entries ''date'' (as_release_emit_yaml E r c) = [])
   \<and> (timestamp r > 0 \<and> as_context_get_style c \<noteq> AS_FORMAT_STYLE_CATALOG \<longrightarrow>
      text_props ''date'' (node_calls (as_release_to_xml_node E r c))
        = [unix_to_iso8601 E (sint (timestamp r))]
      \<and> text_props ''timestamp'' (node_calls (as_release_to_xml_node E r c)) = []
      \<and> yaml_entries ''date'' (as_release_emit_yaml E r c)
        = [EmitEntry ''date'' (unix_to_iso8601 E (sint (timestamp r)))]
      \<and> yaml_entries ''unix-timestamp'' (as_release_emit_yaml E r c) = [])
   \<and> (timestamp r = 0 \<longrightarrow>
      text_props ''timestamp'' (node_calls (as_release_to_xml_node E r c)) = []
      \<and> text_props ''date'' (node_calls (as_release_to_xml_node E r c)) = []
      \<and> yaml_entries ''unix-timestamp'' (as_release_emit_yaml E r c) = []
      \<and> yaml_entries ''date'' (as_release_emit_yaml E r c) = [])"
  by (simp add: xml_time_props yaml_time_entries)

theorem emit_timestamp_or_date_witness:
  "text_props ''timestamp''
     (node_calls (as_release_to_xml_node sample_extern stamped_release catalog_context))
     = [Some ''1700000000'']
   \<and> text_props ''date''
       (node_calls (as_release_to_xml_node sample_extern stamped_release catalog_context)) = []
   \<and> yaml_entries ''unix-timestamp''
       (as_release_emit_yaml sample_extern stamped_release catalog_context)
     = [EmitEntryTimestamp ''unix-timestamp'' 1700000000]
   \<and> yaml_entries ''date''
       (as_release_emit_yaml sample_extern stamped_release catalog_context) = []
   \<and> text_props ''date''
       (node_calls (as_release_to_xml_node sample_extern stamped_release metainfo_context))
     = [Some ''2023-11-14T22:13:20Z'']
   \<and> text_props ''timestamp''
       (node_calls (as_release_to_xml_node sample_extern stamped_release metainfo_context)) = []
   \<and> yaml_entries ''date''
       (as_release_emit_yaml sample_extern stamped_release metainfo_context)
     = [EmitEntry ''date'' (Some ''2023-11-14T22:13:20Z'')]
   \<and> yaml_entries ''unix-timestamp''
       (as_release_emit_yaml sample_extern stamped_release metainfo_context) = []
   \<and> text_props ''timestamp''
       (node_calls (as_release_to_xml_node sample_extern as_release_new catalog_context)) = []
   \<and> text_props ''date''
       (node_calls (as_release_to_xml_node sample_extern as_release_new metainfo_context)) = []
   \<and> yaml_entries ''unix-timestamp''
       (as_release_emit_yaml sample_extern as_release_new catalog_context) = []
   \<and> yaml_entries ''date''
       (as_release_emit_yaml sample_extern as_release_new metainfo_context) = []"
  using emit_timestamp_or_date
          [where E = sample_extern and r = stamped_release and c = catalog_context]
        emit_timestamp_or_date
          [where E = sample_extern and r = stamped_release and c = metainfo_context]
        emit_timestamp_or_date
          [where E = sample_extern and r = as_release_new and c = catalog_context]
        emit_timestamp_or_date
          [where E = sample_extern and r = as_release_new and c = metainfo_context]
  by (simp add: stamped_release_def sample_release_def as_release_new_def as_release_init_def
        catalog_context_def metainfo_context_def as_context_get_style_def
        sample_extern_def sample_unix_to_iso8601_def guint64_to_string_def
        decimal_digits.simps)

section \<open>Properties of the YAML mapper\<close>

text \<open>
  C10. Take a mapping with no \<^verbatim>\<open>unix-timestamp\<close> entry and one \<^verbatim>\<open>date\<close> entry,
  whose value parses as ISO-8601. \<^verbatim>\<open>as_release_load_from_yaml\<close> returns TRUE, the
  timestamp field is the epoch value parsed from that string, and the date field is what
  it was before the load: on a new record it stays NULL.
\<close>

theorem load_from_yaml_date_key:
  assumes "\<forall>n \<in> set (g_children node). as_yaml_node_get_key n \<noteq> Some ''unix-timestamp''"
    and "filter (\<lambda>n. as_yaml_node_get_key n = Some ''date'') (g_children node) = [dn]"
    and "iso8601_to_unix E (as_yaml_node_get_value dn) = Some t"
  shows "map_option (\<lambda>(b, r', l). (b, timestamp r', date r'))
           (as_release_load_from_yaml E r c node) = Some (True, word_of_int t, date r)
         \<and> map_option (\<lambda>(b, r', l). date r')
             (as_release_load_from_yaml E as_release_new c node) = Some None"
proof -
  have main: "map_option (\<lambda>(b, r', l). (b, timestamp r', date r'))
           (as_release_load_from_yaml E r0 c node) = Some (True, word_of_int t, date r0)"
    for r0 :: "('a, 'b) AsRelease"
  proof -
    from load_yaml_entries_one_date [OF assms, of c "as_release_set_context r0 (Some c)"]
    obtain r' l where
      e: "load_yaml_entries E c (as_release_set_context r0 (Some c)) (g_children node)
            = Some (r', l)"
      and t: "timestamp r' = word_of_int t"
      by auto
    from load_yaml_entries_date [OF e] have "date r' = date r0"
      by (simp add: as_release_set_context_def)
    with e t show ?thesis by (simp add: as_release_load_from_yaml_def)
  qed
  have "date (as_release_new :: ('a, 'b) AsRelease) = None"
    by (simp add: as_release_new_def as_release_init_def)
  with main [of as_release_new] main [of r] show ?thesis
    by (auto simp: map_option_case split: option.splits)
qed

theorem load_from_yaml_date_key_witness:
  "map_option (\<lambda>(b, r', l). (b, timestamp r', date r'))
     (as_release_load_from_yaml sample_extern sample_release metainfo_context yaml_node)
     = Some (True, 1700000000, Some ''2024-01-01'')
   \<and> map_option (\<lambda>(b, r', l). date r')
       (as_release_load_from_yaml sample_extern as_release_new metainfo_context yaml_node)
     = Some None"
  using load_from_yaml_date_key [where node = yaml_node and E = sample_extern
          and dn = "GNode (Some ''date'') [GNode (Some ''2023-11-14T22:13:20Z'') []]"
          and t = 1700000000 and r = sample_release and c = metainfo_context]
  by (simp add: yaml_node_def as_yaml_node_get_key_def as_yaml_node_get_value_def
        sample_extern_def sample_iso8601_to_unix_def sample_release_def)

section \<open>Properties of the codecs\<close>

text \<open>
  C8. Decoding the encoding of a release kind gives the kind back, for each of the three
  kinds, and every string that is neither \<^verbatim>\<open>stable\<close> nor \<^verbatim>\<open>development\<close>
  (\<^verbatim>\<open>bogus\<close>, say) decodes to the unknown kind. The urgency codec has the same two
  properties for its five values.
\<close>

theorem enum_codec_roundtrip:
  "as_release_kind_from_string (Some (as_release_kind_to_string k)) = k
   \<and> (\<forall>s. s \<noteq> ''stable'' \<and> s \<noteq> ''development''
          \<longrightarrow> as_release_kind_from_string (Some s) = AS_RELEASE_KIND_UNKNOWN)
   \<and> as_urgency_kind_from_string (Some (as_urgency_kind_to_string u)) = u
   \<and> (\<forall>s. s \<noteq> ''low'' \<and> s \<noteq> ''medium'' \<and> s \<noteq> ''high'' \<and> s \<noteq> ''critical''
          \<longrightarrow> as_urgency_kind_from_string (Some s) = AS_URGENCY_KIND_UNKNOWN)"
proof -
  have k: "as_release_kind_from_string (Some (as_release_kind_to_string k)) = k"
    by (cases k)
       (simp_all add: as_release_kind_from_string_def as_release_kind_to_string_def
          g_strcmp0_eq_def)
  have u: "as_urgency_kind_from_string (Some (as_urgency_kind_to_string u)) = u"
    by (cases u)
       (simp_all add: as_urgency_kind_from_string_def as_urgency_kind_to_string_def
          g_strcmp0_eq_def)
  show ?thesis
    using k u
    by (simp add: as_release_kind_from_string_def as_urgency_kind_from_string_def
          g_strcmp0_eq_def)
qed

theorem enum_codec_roundtrip_witness:
  "as_release_kind_from_string (Some (as_release_kind_to_string AS_RELEASE_KIND_DEVELOPMENT))
     = AS_RELEASE_KIND_DEVELOPMENT
   \<and> as_release_kind_from_string (Some ''bogus'') = AS_RELEASE_KIND_UNKNOWN
   \<and> as_urgency_kind_from_string (Some (as_urgency_kind_to_string AS_URGENCY_KIND_CRITICAL))
     = AS_URGENCY_KIND_CRITICAL
   \<and> as_urgency_kind_from_string (Some ''bogus'') = AS_URGENCY_KIND_UNKNOWN"
  using enum_codec_roundtrip [of AS_RELEASE_KIND_DEVELOPMENT AS_URGENCY_KIND_CRITICAL]
  by simp

text \<open>
  C2 (as stated): the URL-kind decoder would give the details kind for the empty string.
  It gives the unknown kind: only the NULL pointer is defaulted.
\<close>

theorem url_kind_empty_string_counterexample:
  "as_release_url_kind_from_string (Some '''') \<noteq> AS_RELEASE_URL_KIND_DETAILS"
  by (simp add: as_release_url_kind_from_string_def g_strcmp0_eq_def)

text \<open>
  C2 (amended). The URL-kind decoder gives the details kind for the NULL pointer and for
  the string \<^verbatim>\<open>details\<close>; every other string, the empty string and \<^verbatim>\<open>bogus\<close>
  among them, decodes to the unknown kind.
\<close>

theorem url_kind_from_string_default:
  "as_release_url_kind_from_string None = AS_RELEASE_URL_KIND_DETAILS
   \<and> as_release_url_kind_from_string (Some ''details'') = AS_RELEASE_URL_KIND_DETAILS
   \<and> (\<forall>s. s \<noteq> ''details''
          \<longrightarrow> as_release_url_kind_from_string (Some s) = AS_RELEASE_URL_KIND_UNKNOWN)"
  by (simp add: as_release_url_kind_from_string_def g_strcmp0_eq_def)

theorem url_kind_from_string_default_witness:
  "as_release_url_kind_from_string None = AS_RELEASE_URL_KIND_DETAILS
   \<and> as_release_url_kind_from_string (Some '''') = AS_RELEASE_URL_KIND_UNKNOWN
   \<and> as_release_url_kind_from_string (Some ''bogus'') = AS_RELEASE_URL_KIND_UNKNOWN"
  using url_kind_from_string_default by simp

end
